theory Spec2Isabelle
  imports Main "HOL-Library.Word"
begin

unbundle bit_operations_syntax

section \<open>The Windows service wrapper of per-host-subnet\<close>

text \<open>
  A shallow embedding of \<^verbatim>\<open>register/register_windows.go\<close>: the event-log hook
  (\<^verbatim>\<open>etwHook.Fire\<close>), the crash-capture file (\<^verbatim>\<open>initPanicFile\<close>,
  \<^verbatim>\<open>removePanicFile\<close>), the service handler (\<^verbatim>\<open>handler.Execute\<close>,
  \<^verbatim>\<open>started\<close>, \<^verbatim>\<open>stopped\<close>) and the entry points
  (\<^verbatim>\<open>initService\<close>, \<^verbatim>\<open>notifySystem\<close>, \<^verbatim>\<open>NotifyShutdown\<close>).

  The operating system is a record \<open>world\<close>: the files on disk, the table of open
  handles, the standard-error slot of the process, the event log, the console. The
  package-level variables of the Go file (\<^verbatim>\<open>service\<close>, \<^verbatim>\<open>oldStderr\<close>,
  \<^verbatim>\<open>panicFile\<close>) are fields of the same record. Every system call can fail:
  the field \<open>fault\<close> says which calls do, so each error branch of the source is a
  branch of the model. What a goroutine sends on a channel, reports to the service
  manager or hands to the logger is appended to the field \<open>trace\<close>, in program order.

  The program is built for Windows (line 1). There a file cannot be deleted or renamed
  while a handle on it is open: the files of package \<^verbatim>\<open>os\<close> are opened without
  \<^verbatim>\<open>FILE_SHARE_DELETE\<close>.
\<close>

subsection \<open>Constants (lines 26-42)\<close>

definition ServiceName :: string where
  "ServiceName = ''rancher-per-host-subnet''"

definition logFile :: string where
  "logFile = ''C:/ProgramData/rancher/per-host-subnet.log''"

definition rancherPanicFile :: string where
  "rancherPanicFile = ''C:/ProgramData/rancher/per-host-subnet_panic.log''"

definition homeDir :: string where
  "homeDir = ''C:/ProgramData/rancher''"

definition eventInfo :: "32 word" where "eventInfo = 1"
definition eventWarn :: "32 word" where "eventWarn = 1"
definition eventError :: "32 word" where "eventError = 1"
definition eventDebug :: "32 word" where "eventDebug = 2"
definition eventPanic :: "32 word" where "eventPanic = 3"
definition eventFatal :: "32 word" where "eventFatal = 4"
definition eventExtraOffset :: "32 word" where "eventExtraOffset = 10"

subsection \<open>Library types\<close>

text \<open>
  \<^verbatim>\<open>logrus.Level\<close> is an unsigned integer; the six levels the hook subscribes to are
  numbered from \<^verbatim>\<open>PanicLevel = 0\<close> to \<^verbatim>\<open>DebugLevel = 5\<close> (an \<^verbatim>\<open>iota\<close> block of
  logrus). Any other value is a level the hook does not know.
\<close>

type_synonym Level = "32 word"

definition PanicLevel :: Level where "PanicLevel = 0"
definition FatalLevel :: Level where "FatalLevel = 1"
definition ErrorLevel :: Level where "ErrorLevel = 2"
definition WarnLevel :: Level where "WarnLevel = 3"
definition InfoLevel :: Level where "InfoLevel = 4"
definition DebugLevel :: Level where "DebugLevel = 5"

text \<open>The event types of \<^verbatim>\<open>golang.org/x/sys/windows\<close> (\<^verbatim>\<open>uint16\<close>).\<close>

definition EVENTLOG_ERROR_TYPE :: "16 word" where "EVENTLOG_ERROR_TYPE = 1"
definition EVENTLOG_WARNING_TYPE :: "16 word" where "EVENTLOG_WARNING_TYPE = 2"
definition EVENTLOG_INFORMATION_TYPE :: "16 word" where "EVENTLOG_INFORMATION_TYPE = 4"

text \<open>
  A log record (\<^verbatim>\<open>logrus.Entry\<close>): the fields of \<open>Data\<close> are listed in the order in
  which the \<^verbatim>\<open>range\<close> loop of \<^verbatim>\<open>Fire\<close> visits the map (Go leaves that order open),
  each value as \<^verbatim>\<open>fmt.Fprint\<close> prints it.
\<close>

record Entry =
  Level :: Level
  Message :: string
  Data :: "(string \<times> string) list"

text \<open>
  The service-control types of \<^verbatim>\<open>golang.org/x/sys/windows/svc\<close>: \<^verbatim>\<open>svc.State\<close>,
  \<^verbatim>\<open>svc.Accepted\<close> (a bit mask), \<^verbatim>\<open>svc.Cmd\<close>, \<^verbatim>\<open>svc.Status\<close> and
  \<^verbatim>\<open>svc.ChangeRequest\<close>, with the numbers of the Windows API.
\<close>

datatype State =
  Stopped | StartPending | StopPending | Running | ContinuePending | PausePending | Paused

type_synonym Accepted = "32 word"

definition AcceptStop :: Accepted where "AcceptStop = 1"
definition AcceptPauseAndContinue :: Accepted where "AcceptPauseAndContinue = 2"
definition AcceptShutdown :: Accepted where "AcceptShutdown = 4"
definition SERVICE_ACCEPT_PARAMCHANGE :: Accepted where "SERVICE_ACCEPT_PARAMCHANGE = 8"

type_synonym Cmd = "32 word"

definition Stop :: Cmd where "Stop = 1"
definition Pause :: Cmd where "Pause = 2"
definition Continue :: Cmd where "Continue = 3"
definition Interrogate :: Cmd where "Interrogate = 4"
definition Shutdown :: Cmd where "Shutdown = 5"
definition SERVICE_CONTROL_PARAMCHANGE :: Cmd where "SERVICE_CONTROL_PARAMCHANGE = 6"

record Status =
  State :: State
  Accepts :: Accepted
  CheckPoint :: "32 word"
  WaitHint :: "32 word"

record ChangeRequest =
  Cmd :: Cmd
  CurrentStatus :: Status

subsection \<open>The operating system\<close>

type_synonym Handle = nat

datatype oscall =
    OsStat string
  | OsMkdirAll string
  | OsCreate string
  | OsOpenFile string
  | OsRename string string
  | OsRemove string
  | FileStat Handle
  | FileClose Handle
  | GetStdHandle
  | SetStdHandle Handle
  | IsAnInteractiveSession
  | EventlogOpen string
  | ReportEvent Handle
  | RegisterService
  | UnregisterService
  | DebugRun string
  | SvcRun string

datatype error =
    SysError oscall
  | ErrInvalid
  | EINVAL
  | UnknownLevel

text \<open>An open file (\<^verbatim>\<open>*os.File\<close>): the name it was opened with and its handle.\<close>

record File =
  name :: string
  fd :: Handle

text \<open>The handler (lines 52-55): its two channels are unbuffered; what is sent on them
  is recorded in the trace.\<close>

datatype handler = Handler

record etwHook =
  log :: "Handle option"

record Event =
  evHandle :: Handle
  evType :: "16 word"
  evId :: "32 word"
  evStrings :: "string list"

text \<open>
  What a goroutine does that others can see: a status sent to the service manager
  (\<^verbatim>\<open>s <- st\<close>), a value sent on \<^verbatim>\<open>h.fromsvc\<close>, \<^verbatim>\<open>h.tosvc\<close> or
  \<^verbatim>\<open>serviceSignal\<close>, a receive from \<^verbatim>\<open>h.fromsvc\<close> whose value is dropped, and a
  record handed to logrus (level, text or format, the error argument if there is one).
\<close>

datatype action =
    SendStatus Status
  | SendFromsvc "error option"
  | RecvFromsvc
  | SendTosvc bool
  | SendServiceSignal bool
  | Log Level string "error option"

record world =
  files :: "string \<Rightarrow> string option"
  dirs :: "string \<Rightarrow> bool"
  handles :: "Handle \<Rightarrow> string option"
  nextHandle :: Handle
  stdErrorHandle :: Handle
  isInteractive :: bool
  fault :: "oscall \<Rightarrow> bool"
  eventLog :: "Event list"
  console :: string
  hooks :: "etwHook list"
  logOutput :: "File option"
  service :: "handler option"
  oldStderr :: Handle
  panicFile :: "File option"
  trace :: "action list"
  stopSignalled :: bool
  exitAfter :: "nat option"

text \<open>
  Two fields are about the goroutine that \<^verbatim>\<open>Init\<close> starts at lines 450-456, which
  waits on \<^verbatim>\<open>serviceSignal\<close> and, on receiving \<^verbatim>\<open>true\<close>, logs one record and calls
  \<^verbatim>\<open>os.Exit(0)\<close>. \<open>stopSignalled\<close> holds once it has received \<^verbatim>\<open>true\<close>: from then on
  it runs beside the goroutine that sent the value, and the scheduler decides when its
  exit ends the process. \<open>exitAfter\<close> is that decision: \<open>Some k\<close> when the process ends
  after the sender has made \<open>k\<close> more system calls, \<open>None\<close> when the sender returns from
  \<^verbatim>\<open>Execute\<close> before.
\<close>

definition emit :: "action \<Rightarrow> world \<Rightarrow> world" where
  "emit a w = w\<lparr>trace := trace w @ [a]\<rparr>"

text \<open>\<^verbatim>\<open>os.Create\<close>: the file is created, or truncated when it exists.\<close>

definition os_Create :: "string \<Rightarrow> world \<Rightarrow> error + (File \<times> world)" where
  "os_Create p w =
     (if fault w (OsCreate p) then Inl (SysError (OsCreate p))
      else Inr (\<lparr>name = p, fd = nextHandle w\<rparr>,
                w\<lparr>files := (files w)(p \<mapsto> ''''),
                  handles := (handles w)(nextHandle w \<mapsto> p),
                  nextHandle := Suc (nextHandle w)\<rparr>))"

text \<open>\<^verbatim>\<open>os.OpenFile\<close> for writing, never truncating; \<open>create\<close> is the flag
  \<^verbatim>\<open>O_CREATE\<close>: without it a missing file is an error.\<close>

definition os_OpenFile :: "string \<Rightarrow> bool \<Rightarrow> world \<Rightarrow> error + (File \<times> world)" where
  "os_OpenFile p create w =
     (if fault w (OsOpenFile p) \<or> (\<not> create \<and> files w p = None)
      then Inl (SysError (OsOpenFile p))
      else Inr (\<lparr>name = p, fd = nextHandle w\<rparr>,
                w\<lparr>files := (files w)(p \<mapsto> (case files w p of None \<Rightarrow> '''' | Some c \<Rightarrow> c)),
                  handles := (handles w)(nextHandle w \<mapsto> p),
                  nextHandle := Suc (nextHandle w)\<rparr>))"

text \<open>\<^verbatim>\<open>(*os.File).Stat\<close>, of which the callers read the size only. On a nil
  receiver it returns \<^verbatim>\<open>ErrInvalid\<close>; on a closed file it fails.\<close>

definition File_Stat :: "File option \<Rightarrow> world \<Rightarrow> error + nat" where
  "File_Stat fo w =
     (case fo of
        None \<Rightarrow> Inl ErrInvalid
      | Some f \<Rightarrow>
          if fault w (FileStat (fd f)) then Inl (SysError (FileStat (fd f)))
          else (case handles w (fd f) of
                  None \<Rightarrow> Inl (SysError (FileStat (fd f)))
                | Some p \<Rightarrow>
                    (case files w p of
                       None \<Rightarrow> Inl (SysError (FileStat (fd f)))
                     | Some c \<Rightarrow> Inr (length c))))"

definition File_Close :: "File option \<Rightarrow> world \<Rightarrow> error option \<times> world" where
  "File_Close fo w =
     (case fo of
        None \<Rightarrow> (Some ErrInvalid, w)
      | Some f \<Rightarrow>
          if fault w (FileClose (fd f)) \<or> handles w (fd f) = None
          then (Some (SysError (FileClose (fd f))), w)
          else (None, w\<lparr>handles := (handles w)(fd f := None)\<rparr>))"

text \<open>Some open handle names the file \<open>p\<close>. Handles are given out in increasing
  order, so the open ones are below \<open>nextHandle\<close>.\<close>

definition isOpen :: "string \<Rightarrow> world \<Rightarrow> bool" where
  "isOpen p w = list_ex (\<lambda>h. handles w h = Some p) [0..<nextHandle w]"

text \<open>\<^verbatim>\<open>os.Rename\<close>: an existing target is replaced. It fails with a sharing
  violation while a handle on either file is open.\<close>

definition os_Rename :: "string \<Rightarrow> string \<Rightarrow> world \<Rightarrow> error option \<times> world" where
  "os_Rename old new w =
     (if fault w (OsRename old new) \<or> isOpen old w \<or> isOpen new w
      then (Some (SysError (OsRename old new)), w)
      else (case files w old of
              None \<Rightarrow> (Some (SysError (OsRename old new)), w)
            | Some c \<Rightarrow> (None, w\<lparr>files := (files w)(old := None, new \<mapsto> c)\<rparr>)))"

text \<open>\<^verbatim>\<open>os.Remove\<close>: it fails with a sharing violation while a handle on the file
  is open.\<close>

definition os_Remove :: "string \<Rightarrow> world \<Rightarrow> error option \<times> world" where
  "os_Remove p w =
     (if fault w (OsRemove p) \<or> files w p = None \<or> isOpen p w
      then (Some (SysError (OsRemove p)), w)
      else (None, w\<lparr>files := (files w)(p := None)\<rparr>))"

definition syscall_GetStdHandle :: "world \<Rightarrow> error + Handle" where
  "syscall_GetStdHandle w =
     (if fault w GetStdHandle then Inl (SysError GetStdHandle) else Inr (stdErrorHandle w))"

text \<open>\<^verbatim>\<open>setStdHandle.Call(STD_ERROR_HANDLE, h)\<close>: the first result is 0 when the call
  fails; the error result of \<^verbatim>\<open>Call\<close> is never nil.\<close>

definition setStdHandle_Call :: "Handle \<Rightarrow> world \<Rightarrow> nat \<times> error \<times> world" where
  "setStdHandle_Call h w =
     (if fault w (SetStdHandle h) then (0, SysError (SetStdHandle h), w)
      else (1, SysError (SetStdHandle h), w\<lparr>stdErrorHandle := h\<rparr>))"

subsection \<open>The crash-capture file (lines 367-422)\<close>

definition initPanicFile :: "string \<Rightarrow> world \<Rightarrow> error option \<times> world" where
  "initPanicFile path w0 =
     (case os_Create rancherPanicFile w0 of
        Inl err \<Rightarrow> (Some err, w0)
      | Inr (_, w1) \<Rightarrow>
     (case os_OpenFile path True w1 of
        Inl err \<Rightarrow> (Some err, w1\<lparr>panicFile := None\<rparr>)
      | Inr (f, w2') \<Rightarrow>
     (let w2 = w2'\<lparr>panicFile := Some f\<rparr> in
     (case File_Stat (panicFile w2) w2 of
        Inl err \<Rightarrow> (Some err, w2)
      | Inr sz \<Rightarrow>
     (case (if sz > 0
            then (let w3 = snd (File_Close (panicFile w2) w2);
                      w4 = snd (os_Rename path (path @ ''.old'') w3)
                  in (case os_Create path w4 of
                        Inl err \<Rightarrow> Inl (err, w4\<lparr>panicFile := None\<rparr>)
                      | Inr (f', w5) \<Rightarrow> Inr (w5\<lparr>panicFile := Some f'\<rparr>)))
            else Inr w2) of
        Inl (err, w) \<Rightarrow> (Some err, w)
      | Inr w6 \<Rightarrow>
     (case syscall_GetStdHandle w6 of
        Inl err \<Rightarrow> (Some err, w6)
      | Inr h \<Rightarrow>
     (let w7 = w6\<lparr>oldStderr := h\<rparr> in
     (case panicFile w7 of
        None \<Rightarrow> (Some ErrInvalid, w7)
      | Some pf \<Rightarrow>
     (case setStdHandle_Call (fd pf) w7 of
        (r, err, w8) \<Rightarrow> if r = 0 then (Some err, w8) else (None, w8))))))))))"

definition removePanicFile :: "world \<Rightarrow> world" where
  "removePanicFile w =
     (case File_Stat (panicFile w) w of
        Inl err \<Rightarrow> w
      | Inr sz \<Rightarrow>
          if sz = 0
          then (case panicFile w of
                  None \<Rightarrow> w
                | Some pf \<Rightarrow>
                    (let w1 = snd (snd (setStdHandle_Call (oldStderr w) w));
                         w2 = snd (File_Close (panicFile w1) w1);
                         w3 = snd (os_Remove (name pf) w2)
                     in w3))
          else w)"

text \<open>
  \<^verbatim>\<open>removePanicFile\<close> cut short: the state when the process ends after \<open>k\<close> of its
  system calls, which are \<^verbatim>\<open>Stat\<close>, \<^verbatim>\<open>SetStdHandle\<close>, \<^verbatim>\<open>Close\<close> and
  \<^verbatim>\<open>Remove\<close> in this order. \<^verbatim>\<open>Stat\<close> changes nothing, so the first change comes
  with the second call.
\<close>

definition removePanicFile_prefix :: "nat \<Rightarrow> world \<Rightarrow> world" where
  "removePanicFile_prefix k w =
     (case File_Stat (panicFile w) w of
        Inl err \<Rightarrow> w
      | Inr sz \<Rightarrow>
          if sz = 0
          then (case panicFile w of
                  None \<Rightarrow> w
                | Some pf \<Rightarrow>
                    (let w1 = (if 2 \<le> k then snd (snd (setStdHandle_Call (oldStderr w) w)) else w);
                         w2 = (if 3 \<le> k then snd (File_Close (panicFile w1) w1) else w1);
                         w3 = (if 4 \<le> k then snd (os_Remove (name pf) w2) else w2)
                     in w3))
          else w)"

subsection \<open>The event-log hook (lines 57-142)\<close>

text \<open>The \<^verbatim>\<open>switch\<close> of \<^verbatim>\<open>Fire\<close> (lines 78-99): the event type and identifier of a
  level, \<open>None\<close> in the \<^verbatim>\<open>default\<close> case.\<close>

definition levelEvent :: "Level \<Rightarrow> (16 word \<times> 32 word) option" where
  "levelEvent l =
     (if l = PanicLevel then Some (EVENTLOG_ERROR_TYPE, eventPanic)
      else if l = FatalLevel then Some (EVENTLOG_ERROR_TYPE, eventFatal)
      else if l = ErrorLevel then Some (EVENTLOG_ERROR_TYPE, eventError)
      else if l = WarnLevel then Some (EVENTLOG_WARNING_TYPE, eventWarn)
      else if l = InfoLevel then Some (EVENTLOG_INFORMATION_TYPE, eventInfo)
      else if l = DebugLevel then Some (EVENTLOG_INFORMATION_TYPE, eventDebug)
      else None)"

text \<open>The loop of lines 105-110: each field as \<^verbatim>\<open>k=v\<close> followed by one space.\<close>

fun writeFields :: "(string \<times> string) list \<Rightarrow> string" where
  "writeFields [] = ''''"
| "writeFields ((k, v) # kvs) = k @ ''='' @ v @ '' '' @ writeFields kvs"

text \<open>\<^verbatim>\<open>syscall.UTF16PtrFromString\<close> fails with \<^verbatim>\<open>EINVAL\<close> on a string that holds a
  NUL byte; the string it points to is kept as it is.\<close>

definition UTF16PtrFromString :: "string \<Rightarrow> error + string" where
  "UTF16PtrFromString s = (if CHR 0x00 \<in> set s then Inl EINVAL else Inr s)"

definition windows_ReportEvent ::
  "Handle \<Rightarrow> 16 word \<Rightarrow> 32 word \<Rightarrow> string list \<Rightarrow> world \<Rightarrow> error option \<times> world" where
  "windows_ReportEvent lh etype eid ss w =
     (if fault w (ReportEvent lh) then (Some (SysError (ReportEvent lh)), w)
      else (None, w\<lparr>eventLog := eventLog w @
              [\<lparr>evHandle = lh, evType = etype, evId = eid, evStrings = ss\<rparr>]\<rparr>))"

definition Fire :: "etwHook \<Rightarrow> Entry \<Rightarrow> world \<Rightarrow> error option \<times> world" where
  "Fire h e w =
     (case levelEvent (Level e) of
        None \<Rightarrow> (Some UnknownLevel, w)
      | Some (etype, eid0) \<Rightarrow>
          (let exts = (if length (Data e) > 0 then butlast (writeFields (Data e)) else '''');
               eid = (if length (Data e) > 0 then eid0 + eventExtraOffset else eid0)
           in (case log h of
                 None \<Rightarrow>
                   (None, w\<lparr>console := console w @ Message e @ '' ['' @ exts @ '']'' @ [CHR 0x0A]\<rparr>)
               | Some lh \<Rightarrow>
                   (case UTF16PtrFromString (Message e) of
                      Inl err \<Rightarrow> (Some err, w)
                    | Inr s0 \<Rightarrow>
                        if exts \<noteq> ''''
                        then (case UTF16PtrFromString exts of
                                Inl err \<Rightarrow> (Some err, w)
                              | Inr s1 \<Rightarrow> windows_ReportEvent lh etype eid [s0, s1] w)
                        else windows_ReportEvent lh etype eid [s0] w))))"

subsection \<open>The handler (lines 312-365)\<close>

text \<open>How a call ends: it returns, or the process exits (\<^verbatim>\<open>os.Exit\<close>, also at the end
  of \<^verbatim>\<open>logrus.Fatal\<close> and \<^verbatim>\<open>logrus.Fatalf\<close>, which exit with status 1).\<close>

datatype 'a outcome = Returns 'a | Exits nat

definition started :: "world \<Rightarrow> error option \<times> world" where
  "started w =
     (case initPanicFile rancherPanicFile w of
        (Some err, w1) \<Rightarrow> (Some err, w1)
      | (None, w1) \<Rightarrow> (None, emit (SendTosvc False) w1))"

definition stopped :: "error option \<Rightarrow> world \<Rightarrow> world" where
  "stopped err w =
     emit RecvFromsvc
       (emit (SendTosvc (err \<noteq> None))
          (emit (Log DebugLevel ''Stopping service: %v'' err) w))"

text \<open>
  What \<^verbatim>\<open>Execute\<close> receives while it runs: a value on \<^verbatim>\<open>h.tosvc\<close> or a request of
  the service manager on \<^verbatim>\<open>r\<close>. The list is the order in which the \<^verbatim>\<open>select\<close> of
  line 344 takes them; when the list ends the \<^verbatim>\<open>select\<close> waits for ever, and the
  loop does not return.

  \<^verbatim>\<open>serviceSignal\<close> is unbuffered: the send of line 355 completes when the goroutine
  of lines 450-456 takes the value. \<^verbatim>\<open>Init\<close> starts that goroutine as soon as
  \<^verbatim>\<open>notifySystem\<close> has returned, and the loop is reached only after the send of line
  318 in \<^verbatim>\<open>notifySystem\<close>; so the value is taken, and from then on the exit of that
  goroutine is on its way (\<open>stopSignalled\<close>).
\<close>

datatype event = Tosvc bool | Request ChangeRequest

fun Execute_Loop :: "event list \<Rightarrow> world \<Rightarrow> (bool \<times> world) option" where
  "Execute_Loop [] w = None"
| "Execute_Loop (Tosvc b # evs) w = Some (b, w)"
| "Execute_Loop (Request c # evs) w =
     (if Cmd c = SERVICE_CONTROL_PARAMCHANGE then Execute_Loop evs w
      else if Cmd c = Interrogate then Execute_Loop evs (emit (SendStatus (CurrentStatus c)) w)
      else if Cmd c = Stop \<or> Cmd c = Shutdown
      then Some (True,
             (emit (SendServiceSignal True)
               (emit (SendStatus \<lparr>State = StopPending, Accepts = 0, CheckPoint = 0, WaitHint = 0\<rparr>) w))
             \<lparr>stopSignalled := True\<rparr>)
      else Execute_Loop evs w)"

text \<open>
  \<^verbatim>\<open>Execute\<close> (lines 328-365). \<open>init\<close> is the value it receives on \<^verbatim>\<open>h.tosvc\<close> at
  line 334 (\<open>None\<close>: no value ever comes), \<open>evs\<close> what the loop receives after that.
  The result says how the call ends and in which world: it returns a pair to the
  dispatcher, or the process ends before it returns; \<open>None\<close> when neither happens (it
  waits for ever). The process ends under \<^verbatim>\<open>Execute\<close> when the goroutine of lines
  450-456 has been sent \<^verbatim>\<open>true\<close> and its \<^verbatim>\<open>os.Exit(0)\<close> comes before the return of
  line 362: the world is then the one after the record of line 453 and the \<open>k\<close> calls
  that \<^verbatim>\<open>removePanicFile\<close> has made, \<open>k\<close> being \<open>exitAfter\<close>.
\<close>

definition Execute ::
  "bool option \<Rightarrow> event list \<Rightarrow> world \<Rightarrow> ((bool \<times> 32 word) outcome \<times> world) option" where
  "Execute init evs w0 =
     (let w1 = emit (SendStatus \<lparr>State = StartPending, Accepts = 0, CheckPoint = 0, WaitHint = 0\<rparr>) w0;
          w2 = emit (SendFromsvc None) w1
      in (case init of
            None \<Rightarrow> None
          | Some failed \<Rightarrow>
              if failed
              then Some (Returns (True, 1),
                     emit (Log DebugLevel ''Aborting service start due to failure during initialization'' None) w2)
              else
                (let w3 = emit (SendStatus \<lparr>State = Running,
                                  Accepts = AcceptStop OR AcceptShutdown OR SERVICE_ACCEPT_PARAMCHANGE,
                                  CheckPoint = 0, WaitHint = 0\<rparr>) w2;
                     w4 = emit (Log DebugLevel ''Service running'' None) w3
                 in (case Execute_Loop evs w4 of
                       None \<Rightarrow> None
                     | Some (failed', w5) \<Rightarrow>
                         (case (if stopSignalled w5 then exitAfter w5 else None) of
                            Some k \<Rightarrow>
                              Some (Exits 0,
                                emit (Log InfoLevel
                                    ''Receiving service stop signal. Stopping per-host-subnet'' None)
                                  (removePanicFile_prefix k w5))
                          | None \<Rightarrow>
                              (let w6 = removePanicFile w5
                               in if failed' then Some (Returns (True, 1), w6)
                                  else Some (Returns (False, 0), w6)))))))"

subsection \<open>The entry points (lines 241-310 and 424-459)\<close>

definition os_Stat :: "string \<Rightarrow> world \<Rightarrow> error option" where
  "os_Stat p w =
     (if fault w (OsStat p) \<or> (files w p = None \<and> \<not> dirs w p) then Some (SysError (OsStat p))
      else None)"

definition os_MkdirAll :: "string \<Rightarrow> world \<Rightarrow> error option \<times> world" where
  "os_MkdirAll p w =
     (if fault w (OsMkdirAll p) then (Some (SysError (OsMkdirAll p)), w)
      else (None, w\<lparr>dirs := (dirs w)(p := True)\<rparr>))"

text \<open>\<^verbatim>\<open>registerService\<close> and \<^verbatim>\<open>unregisterService\<close> (lines 152-239) only talk to the
  service manager, whose database is not part of \<open>world\<close>: each is one call that
  fails or not.\<close>

definition registerService :: "world \<Rightarrow> error option" where
  "registerService w = (if fault w RegisterService then Some (SysError RegisterService) else None)"

definition unregisterService :: "world \<Rightarrow> error option" where
  "unregisterService w =
     (if fault w UnregisterService then Some (SysError UnregisterService) else None)"

definition svc_IsAnInteractiveSession :: "world \<Rightarrow> error + bool" where
  "svc_IsAnInteractiveSession w =
     (if fault w IsAnInteractiveSession then Inl (SysError IsAnInteractiveSession)
      else Inr (isInteractive w))"

definition eventlog_Open :: "string \<Rightarrow> world \<Rightarrow> error + (Handle \<times> world)" where
  "eventlog_Open src w =
     (if fault w (EventlogOpen src) then Inl (SysError (EventlogOpen src))
      else Inr (nextHandle w, w\<lparr>nextHandle := Suc (nextHandle w)\<rparr>))"

text \<open>
  The goroutine of lines 294-302 runs the handler under \<^verbatim>\<open>debug.Run\<close> or
  \<^verbatim>\<open>svc.Run\<close>. The first value \<^verbatim>\<open>initService\<close> receives on \<^verbatim>\<open>h.fromsvc\<close> is the
  nil that \<^verbatim>\<open>Execute\<close> sends at line 331, or the error of a run that failed before.
\<close>

definition firstFromsvc :: "bool \<Rightarrow> world \<Rightarrow> error option" where
  "firstFromsvc interactive w =
     (if interactive
      then (if fault w (DebugRun ServiceName) then Some (SysError (DebugRun ServiceName)) else None)
      else (if fault w (SvcRun ServiceName) then Some (SysError (SvcRun ServiceName)) else None))"

definition initService :: "bool \<Rightarrow> bool \<Rightarrow> world \<Rightarrow> error option outcome \<times> world" where
  "initService register unregister w0 =
     (case (if os_Stat homeDir w0 \<noteq> None then os_MkdirAll homeDir w0 else (None, w0)) of
        (Some err, w1) \<Rightarrow> (Returns (Some err), w1)
      | (None, w1) \<Rightarrow>
     (if register
      then (case registerService w1 of
              Some err \<Rightarrow>
                (Exits 1, emit (Log FatalLevel ''Failed to register service, err: %v'' (Some err)) w1)
            | None \<Rightarrow> (Exits 0, w1))
      else if unregister
      then (case unregisterService w1 of
              Some err \<Rightarrow>
                (Exits 1, emit (Log FatalLevel ''Failed to unregister service, err: %v'' (Some err)) w1)
            | None \<Rightarrow> (Exits 0, w1))
      else
     (case svc_IsAnInteractiveSession w1 of
        Inl err \<Rightarrow> (Returns (Some err), w1)
      | Inr interactive \<Rightarrow>
     (case (if \<not> interactive
            then (case eventlog_Open ServiceName w1 of
                    Inl err \<Rightarrow> Inl err
                  | Inr (lh, w) \<Rightarrow> Inr (Some lh, w))
            else Inr (None, w1)) of
        Inl err \<Rightarrow> (Returns (Some err), w1)
      | Inr (lg, w2) \<Rightarrow>
     (let w3 = w2\<lparr>hooks := hooks w2 @ [\<lparr>log = lg\<rparr>]\<rparr> in
     (case (if os_Stat logFile w3 \<noteq> None
            then (case os_Create logFile w3 of Inl err \<Rightarrow> Inl err | Inr (_, w) \<Rightarrow> Inr w)
            else Inr w3) of
        Inl err \<Rightarrow> (Returns (Some err), w3)
      | Inr w4 \<Rightarrow>
     (case os_OpenFile logFile False w4 of
        Inl err \<Rightarrow> (Returns (Some err), w4)
      | Inr (file, w5) \<Rightarrow>
     (let w6 = w5\<lparr>logOutput := Some file\<rparr>;
          w7 = w6\<lparr>service := Some Handler\<rparr>;
          w8 = emit RecvFromsvc w7
      in (Returns (firstFromsvc interactive w8), w8)))))))))"

definition notifySystem :: "world \<Rightarrow> unit outcome \<times> world" where
  "notifySystem w =
     (if service w \<noteq> None
      then (case started w of
              (Some err, w1) \<Rightarrow> (Exits 1, emit (Log FatalLevel '''' (Some err)) w1)
            | (None, w1) \<Rightarrow> (Returns (), w1))
      else (Returns (), w))"

definition NotifyShutdown :: "error option \<Rightarrow> world \<Rightarrow> unit outcome \<times> world" where
  "NotifyShutdown err w =
     (if service w \<noteq> None
      then (if err \<noteq> None
            then (Exits 1, emit (Log FatalLevel '''' err) w)
            else (Returns (), stopped err w))
      else (Returns (), w))"

text \<open>\<^verbatim>\<open>Init\<close> (lines 442-459). The goroutine it starts last waits for
  \<^verbatim>\<open>serviceSignal\<close> and leaves the process with status 0; it touches nothing else.\<close>

definition Init :: "bool \<Rightarrow> bool \<Rightarrow> world \<Rightarrow> error option outcome \<times> world" where
  "Init register unregister w =
     (case initService register unregister w of
        (Exits n, w1) \<Rightarrow> (Exits n, w1)
      | (Returns (Some err), w1) \<Rightarrow> (Returns (Some err), w1)
      | (Returns None, w1) \<Rightarrow>
          (case notifySystem w1 of
             (Exits n, w2) \<Rightarrow> (Exits n, w2)
           | (Returns _, w2) \<Rightarrow> (Returns None, w2)))"

subsection \<open>Reading a trace\<close>

text \<open>The states reported to the service manager, in the order of the reports.\<close>

fun reported :: "action list \<Rightarrow> State list" where
  "reported [] = []"
| "reported (SendStatus st # as) = State st # reported as"
| "reported (a # as) = reported as"

text \<open>The answers of the loop of \<^verbatim>\<open>Execute\<close> to a list of requests none of which stops
  the service: the status of each \<^verbatim>\<open>Interrogate\<close> request is sent back (line 351).\<close>

definition answers :: "ChangeRequest list \<Rightarrow> action list" where
  "answers reqs = map (\<lambda>r. SendStatus (CurrentStatus r)) (filter (\<lambda>r. Cmd r = Interrogate) reqs)"

subsection \<open>The specification of the auxiliary string\<close>

text \<open>
  This definition follows the words of the specification, not the source: the fields
  joined as \<^verbatim>\<open>k=v\<close> pairs, separated by single spaces, with no trailing separator. It
  is compared below with what lines 104-112 compute (\<open>butlast (writeFields kvs)\<close>).
\<close>

fun joinFields :: "(string \<times> string) list \<Rightarrow> string" where
  "joinFields [] = ''''"
| "joinFields [(k, v)] = k @ ''='' @ v"
| "joinFields ((k, v) # kv # kvs) = k @ ''='' @ v @ '' '' @ joinFields (kv # kvs)"

subsection \<open>Hosts\<close>

text \<open>
  Concrete hosts on which the functions are evaluated. \<open>freshHost\<close> has an empty disk,
  no open handle besides the three standard ones (standard error is handle 2), no
  failing system call, and runs under the service manager. \<open>crashedHost\<close> is such a host
  on which a former run has left a crash record in the crash-capture file.
  \<open>interactiveHost\<close> is a console session. \<open>serviceHost\<close> is a host after a successful
  \<^verbatim>\<open>initService\<close>, \<open>startedHost\<close> after a successful \<^verbatim>\<open>notifySystem\<close> as well.
  On all of them the exit of the stop-signal goroutine comes after the return of
  \<^verbatim>\<open>Execute\<close>, except on \<open>racingHost\<close>.
\<close>

definition freshHost :: world where
  "freshHost =
     \<lparr>files = (\<lambda>_. None), dirs = (\<lambda>_. False), handles = (\<lambda>_. None), nextHandle = 3,
      stdErrorHandle = 2, isInteractive = False, fault = (\<lambda>_. False), eventLog = [],
      console = '''', hooks = [], logOutput = None, service = None, oldStderr = 0,
      panicFile = None, trace = [], stopSignalled = False, exitAfter = None\<rparr>"

definition crashedHost :: world where
  "crashedHost =
     freshHost\<lparr>files := (files freshHost)(rancherPanicFile \<mapsto> ''panic: runtime error''),
       service := Some Handler\<rparr>"

definition interactiveHost :: world where
  "interactiveHost = freshHost\<lparr>isInteractive := True\<rparr>"

definition serviceHost :: world where
  "serviceHost = snd (initService False False freshHost)"

definition startedHost :: world where
  "startedHost = snd (notifySystem serviceHost)"

text \<open>A host whose crash-capture file is open and empty, but cannot be inspected.\<close>

definition statFailsHost :: world where
  "statFailsHost = startedHost\<lparr>fault := (\<lambda>c. c = FileStat 7)\<rparr>"

text \<open>
  \<open>startedHost\<close> some time later: the Go runtime has collected the file that line 369
  of \<^verbatim>\<open>initPanicFile\<close> opens and drops, and its finalizer has closed the handle (6).
  On \<open>racingHost\<close>, moreover, the exit of the stop-signal goroutine comes at once.
\<close>

definition settledHost :: world where
  "settledHost = startedHost\<lparr>handles := (handles startedHost)(6 := None)\<rparr>"

definition racingHost :: world where
  "racingHost = settledHost\<lparr>exitAfter := Some 0\<rparr>"


text \<open>The console session after a successful \<^verbatim>\<open>initService\<close>.\<close>

definition consoleHost :: world where
  "consoleHost = snd (initService False False interactiveHost)"

section \<open>Properties\<close>

subsection \<open>Auxiliary facts\<close>

lemma emit_alt: "emit a w = w\<lparr>trace := trace w @ [a]\<rparr>"
  by (simp add: emit_def)

lemma isOpen_iff: "isOpen p w \<longleftrightarrow> (\<exists>h<nextHandle w. handles w h = Some p)"
  by (auto simp: isOpen_def list_ex_iff)


text \<open>What \<^verbatim>\<open>removePanicFile\<close> does to an empty crash file, call by call.\<close>

lemma removePanicFile_empty:
  assumes "File_Stat (panicFile w) w = Inr 0" and "panicFile w = Some pf"
  shows "\<not> fault w (SetStdHandle (oldStderr w)) \<Longrightarrow>
      stdErrorHandle (removePanicFile w) = oldStderr w"
    and "fault w (SetStdHandle (oldStderr w)) \<Longrightarrow>
      stdErrorHandle (removePanicFile w) = stdErrorHandle w"
    and "\<not> fault w (FileClose (fd pf)) \<Longrightarrow> handles (removePanicFile w) (fd pf) = None"
    and "\<not> fault w (FileClose (fd pf)) \<Longrightarrow> \<not> fault w (OsRemove (name pf)) \<Longrightarrow>
      \<not> isOpen (name pf) (w\<lparr>handles := (handles w)(fd pf := None)\<rparr>) \<Longrightarrow>
      files (removePanicFile w) (name pf) = None"
    and "fault w (OsRemove (name pf)) \<or>
        isOpen (name pf) (w\<lparr>handles := (handles w)(fd pf := None)\<rparr>) \<Longrightarrow>
      files (removePanicFile w) = files w"
  using assms
  by (auto simp: removePanicFile_def File_Stat_def setStdHandle_Call_def File_Close_def
      os_Remove_def isOpen_iff Let_def split: if_splits option.splits)

lemma removePanicFile_trace_update:
  "removePanicFile (w\<lparr>trace := t\<rparr>) = (removePanicFile w)\<lparr>trace := t\<rparr>"
  by (simp add: removePanicFile_def File_Stat_def setStdHandle_Call_def File_Close_def
      os_Remove_def isOpen_def Let_def split: option.splits)

lemma removePanicFile_stopSignalled_update:
  "removePanicFile (w\<lparr>stopSignalled := b\<rparr>) = (removePanicFile w)\<lparr>stopSignalled := b\<rparr>"
  by (simp add: removePanicFile_def File_Stat_def setStdHandle_Call_def File_Close_def
      os_Remove_def isOpen_def Let_def split: option.splits)


lemma removePanicFile_prefix_all: "4 \<le> k \<Longrightarrow> removePanicFile_prefix k w = removePanicFile w"
  by (simp add: removePanicFile_prefix_def removePanicFile_def Let_def
      split: sum.splits option.splits)

lemma trace_removePanicFile_prefix: "trace (removePanicFile_prefix k w) = trace w"
  by (simp add: removePanicFile_prefix_def File_Stat_def setStdHandle_Call_def File_Close_def
      os_Remove_def Let_def split: option.splits)

lemma removePanicFile_prefix_trace_update:
  "removePanicFile_prefix k (w\<lparr>trace := t\<rparr>) = (removePanicFile_prefix k w)\<lparr>trace := t\<rparr>"
  by (simp add: removePanicFile_prefix_def File_Stat_def setStdHandle_Call_def File_Close_def
      os_Remove_def isOpen_def Let_def split: option.splits)

lemma removePanicFile_prefix_stopSignalled_update:
  "removePanicFile_prefix k (w\<lparr>stopSignalled := b\<rparr>) =
     (removePanicFile_prefix k w)\<lparr>stopSignalled := b\<rparr>"
  by (simp add: removePanicFile_prefix_def File_Stat_def setStdHandle_Call_def File_Close_def
      os_Remove_def isOpen_def Let_def split: option.splits)


lemma initPanicFile_trace: "trace (snd (initPanicFile path w)) = trace w"
  by (auto simp: initPanicFile_def os_Create_def os_OpenFile_def File_Stat_def File_Close_def
      os_Rename_def syscall_GetStdHandle_def setStdHandle_Call_def Let_def
      split: if_splits option.splits sum.splits prod.splits)

lemma writeFields_joinFields:
  "writeFields kvs = (if kvs = [] then '''' else joinFields kvs @ '' '')"
  by (induction kvs rule: joinFields.induct) simp_all

lemma butlast_writeFields: "kvs \<noteq> [] \<Longrightarrow> butlast (writeFields kvs) = joinFields kvs"
  by (simp add: writeFields_joinFields butlast_append)

lemma joinFields_nonempty: "kvs \<noteq> [] \<Longrightarrow> joinFields kvs \<noteq> ''''"
  by (induction kvs rule: joinFields.induct) simp_all

lemma levelEvent_base: "levelEvent l = Some (ty, base) \<Longrightarrow> base \<le> 4"
  by (auto simp: levelEvent_def eventPanic_def eventFatal_def eventError_def eventWarn_def
      eventInfo_def eventDebug_def split: if_splits)

text \<open>The hosts, evaluated.\<close>

lemma serviceHost_eq:
  "serviceHost =
     freshHost\<lparr>files := (files freshHost)(logFile \<mapsto> ''''),
       dirs := (dirs freshHost)(homeDir := True),
       handles := (handles freshHost)(4 \<mapsto> logFile, 5 \<mapsto> logFile),
       nextHandle := 6, hooks := [\<lparr>log = Some 3\<rparr>],
       logOutput := Some \<lparr>name = logFile, fd = 5\<rparr>, service := Some Handler,
       trace := [RecvFromsvc]\<rparr>"
  by (simp add: serviceHost_def initService_def freshHost_def os_Stat_def os_MkdirAll_def
      svc_IsAnInteractiveSession_def eventlog_Open_def os_Create_def os_OpenFile_def
      firstFromsvc_def emit_def Let_def logFile_def homeDir_def fun_upd_twist)

lemma startedHost_eq:
  "startedHost =
     serviceHost\<lparr>files := (files serviceHost)(rancherPanicFile \<mapsto> ''''),
       handles := (handles serviceHost)(6 \<mapsto> rancherPanicFile, 7 \<mapsto> rancherPanicFile),
       nextHandle := 8, stdErrorHandle := 7, oldStderr := 2,
       panicFile := Some \<lparr>name = rancherPanicFile, fd = 7\<rparr>,
       trace := [RecvFromsvc, SendTosvc False]\<rparr>"
  by (simp add: startedHost_def notifySystem_def started_def initPanicFile_def serviceHost_eq
      freshHost_def os_Create_def os_OpenFile_def File_Stat_def syscall_GetStdHandle_def
      setStdHandle_Call_def emit_def Let_def)

lemma startedHost_Stat: "File_Stat (panicFile startedHost) startedHost = Inr 0"
  by (simp add: startedHost_eq serviceHost_eq freshHost_def File_Stat_def)

lemma startedHost_fields:
  "panicFile startedHost = Some \<lparr>name = rancherPanicFile, fd = 7\<rparr>"
  "oldStderr startedHost = 2" "stdErrorHandle startedHost = 7" "nextHandle startedHost = 8"
  "fault startedHost = (\<lambda>_. False)" "trace startedHost = [RecvFromsvc, SendTosvc False]"
  "files startedHost rancherPanicFile = Some ''''" "service startedHost = Some Handler"
  "exitAfter startedHost = None" "handles startedHost 6 = Some rancherPanicFile"
  "handles startedHost 7 = Some rancherPanicFile"
  by (simp_all add: startedHost_eq serviceHost_eq freshHost_def)

lemma settledHost_fields:
  "panicFile settledHost = Some \<lparr>name = rancherPanicFile, fd = 7\<rparr>"
  "oldStderr settledHost = 2" "stdErrorHandle settledHost = 7" "nextHandle settledHost = 8"
  "fault settledHost = (\<lambda>_. False)" "trace settledHost = [RecvFromsvc, SendTosvc False]"
  "files settledHost rancherPanicFile = Some ''''" "service settledHost = Some Handler"
  "exitAfter settledHost = None" "handles settledHost 6 = None"
  "handles settledHost 7 = Some rancherPanicFile"
  "File_Stat (Some \<lparr>name = rancherPanicFile, fd = 7\<rparr>) settledHost = Inr 0"
  by (simp_all add: settledHost_def startedHost_eq serviceHost_eq freshHost_def File_Stat_def)

lemma isOpen_startedHost:
  "isOpen rancherPanicFile (startedHost\<lparr>handles := (handles startedHost)(7 := None)\<rparr>)"
  by (auto simp: isOpen_iff startedHost_fields intro!: exI [of _ 6])

lemma isOpen_settledHost:
  "\<not> isOpen rancherPanicFile (settledHost\<lparr>handles := (handles settledHost)(7 := None)\<rparr>)"
  by (auto simp: isOpen_iff settledHost_def startedHost_eq serviceHost_eq freshHost_def
      logFile_def rancherPanicFile_def split: if_splits)




lemma startedHost_Stat_pf:
  "File_Stat (Some \<lparr>name = rancherPanicFile, fd = 7\<rparr>) startedHost = Inr 0"
  using startedHost_Stat by (simp add: startedHost_fields)
subsection \<open>Crash capture\<close>


text \<open>
  C10. \<^verbatim>\<open>removePanicFile\<close> is total and reports no error: it is a function from
  worlds to worlds. When the \<^verbatim>\<open>Stat\<close> call on the crash file fails (line 414), it does
  nothing at all: the standard-error handle is not restored, the file is neither closed
  nor deleted, and the whole state is as it was.
\<close>

theorem removePanicFile_Stat_error:
  "File_Stat (panicFile w) w = Inl err \<Longrightarrow> removePanicFile w = w"
  by (simp add: removePanicFile_def)

theorem removePanicFile_Stat_error_witness:
  "File_Stat (panicFile statFailsHost) statFailsHost = Inl (SysError (FileStat 7)) \<and>
   removePanicFile statFailsHost = statFailsHost \<and>
   files statFailsHost rancherPanicFile = Some '''' \<and>
   stdErrorHandle statFailsHost = 7"
  using removePanicFile_Stat_error [of statFailsHost "SysError (FileStat 7)"]
  by (simp add: statFailsHost_def startedHost_eq serviceHost_eq freshHost_def File_Stat_def)




text \<open>
  C1. The rotation of lines 385-392 never runs for the crash file of the program.
  \<^verbatim>\<open>initPanicFile\<close> begins by \<^verbatim>\<open>os.Create(rancherPanicFile)\<close> (line 369), which
  truncates the file; when \<open>path\<close> is \<^verbatim>\<open>rancherPanicFile\<close>, as in the only call
  (line 313), the \<^verbatim>\<open>Stat\<close> of line 378 then sees size 0. So whatever the disk held,
  the file \<^verbatim>\<open>rancherPanicFile + ".old"\<close> is as it was before the call: nothing is
  moved there, and when the call succeeds the crash file is empty. A crash record of a
  former run is lost.
\<close>

theorem initPanicFile_never_rotates:
  "initPanicFile rancherPanicFile w = (r, w1) \<Longrightarrow>
     files w1 (rancherPanicFile @ ''.old'') = files w (rancherPanicFile @ ''.old'') \<and>
     (r = None \<longrightarrow> files w1 rancherPanicFile = Some '''')"
  by (auto simp: initPanicFile_def os_Create_def os_OpenFile_def File_Stat_def
      syscall_GetStdHandle_def setStdHandle_Call_def Let_def
      split: if_splits option.splits sum.splits prod.splits)

theorem initPanicFile_never_rotates_witness:
  "files crashedHost rancherPanicFile = Some ''panic: runtime error'' \<and>
   fst (initPanicFile rancherPanicFile crashedHost) = None \<and>
   files (snd (initPanicFile rancherPanicFile crashedHost)) rancherPanicFile = Some '''' \<and>
   files (snd (initPanicFile rancherPanicFile crashedHost)) (rancherPanicFile @ ''.old'') = None"
  using initPanicFile_never_rotates [of crashedHost "fst (initPanicFile rancherPanicFile crashedHost)"
      "snd (initPanicFile rancherPanicFile crashedHost)"]
  by (simp add: crashedHost_def freshHost_def initPanicFile_def os_Create_def os_OpenFile_def
      File_Stat_def syscall_GetStdHandle_def setStdHandle_Call_def Let_def)

text \<open>
  The rotation itself works when line 369 does not interfere: called with another path,
  \<^verbatim>\<open>initPanicFile\<close> moves the old contents to \<^verbatim>\<open>path + ".old"\<close>.
\<close>

lemma initPanicFile_rotates_other_path:
  "files (snd (initPanicFile ''p''
      (freshHost\<lparr>files := (files freshHost)(''p'' \<mapsto> ''panic: runtime error'')\<rparr>))) ''p.old'' =
     Some ''panic: runtime error''"
  by (auto simp: freshHost_def initPanicFile_def os_Create_def os_OpenFile_def File_Stat_def
      File_Close_def os_Rename_def syscall_GetStdHandle_def setStdHandle_Call_def Let_def
      rancherPanicFile_def isOpen_iff)

subsection \<open>The event-log hook\<close>

lemma Fire_reports:
  assumes "levelEvent (Level e) = Some (ty, base)" and "log h = Some lh"
    and "CHR 0x00 \<notin> set (Message e)" and "CHR 0x00 \<notin> set (joinFields (Data e))"
    and "\<not> fault w (ReportEvent lh)"
  shows "Fire h e w = (None, w\<lparr>eventLog := eventLog w @
            [\<lparr>evHandle = lh, evType = ty,
              evId = (if Data e = [] then base else base + eventExtraOffset),
              evStrings = (if Data e = [] then [Message e] else [Message e, joinFields (Data e)])\<rparr>]\<rparr>)"
proof (cases "Data e = []")
  case True
  then show ?thesis using assms
    by (simp add: Fire_def UTF16PtrFromString_def windows_ReportEvent_def)
next
  case False
  then show ?thesis using assms
    by (simp add: Fire_def UTF16PtrFromString_def windows_ReportEvent_def butlast_writeFields
        joinFields_nonempty)
qed

text \<open>
  C8. \<^verbatim>\<open>Fire\<close> gives the record of each of the six levels a fixed pair of an event
  type and an identifier: panic, fatal and error the type \<^verbatim>\<open>ERROR\<close> with the
  identifiers 3, 4 and 1, which differ; warning the type \<^verbatim>\<open>WARNING\<close> with 1; info and
  debug the type \<^verbatim>\<open>INFORMATION\<close> with the identifiers 1 and 2, which differ. The event
  it reports (through an open event log, with no NUL character in the strings and no
  failure of \<^verbatim>\<open>ReportEvent\<close>) has that type, and that identifier, to which 10 is
  added when the record carries fields. For a record of any other level \<^verbatim>\<open>Fire\<close>
  returns an error and leaves the world as it is: nothing is reported to the event log
  and nothing is printed.
\<close>

theorem Fire_levels:
  "((Level e, ty, i) \<in> set
        [(PanicLevel, EVENTLOG_ERROR_TYPE, 3), (FatalLevel, EVENTLOG_ERROR_TYPE, 4),
         (ErrorLevel, EVENTLOG_ERROR_TYPE, 1), (WarnLevel, EVENTLOG_WARNING_TYPE, 1),
         (InfoLevel, EVENTLOG_INFORMATION_TYPE, 1), (DebugLevel, EVENTLOG_INFORMATION_TYPE, 2)] \<and>
      log h = Some lh \<and> CHR 0x00 \<notin> set (Message e) \<and> CHR 0x00 \<notin> set (joinFields (Data e)) \<and>
      \<not> fault w (ReportEvent lh) \<longrightarrow>
        Fire h e w = (None, w\<lparr>eventLog := eventLog w @
          [\<lparr>evHandle = lh, evType = ty,
            evId = (if Data e = [] then i else i + 10),
            evStrings = (if Data e = [] then [Message e] else [Message e, joinFields (Data e)])\<rparr>]\<rparr>)) \<and>
   distinct [eventPanic, eventFatal, eventError] \<and> eventInfo \<noteq> eventDebug \<and>
   distinct [EVENTLOG_ERROR_TYPE, EVENTLOG_WARNING_TYPE, EVENTLOG_INFORMATION_TYPE] \<and>
   (Level e \<notin> {PanicLevel, FatalLevel, ErrorLevel, WarnLevel, InfoLevel, DebugLevel} \<longrightarrow>
      Fire h e w = (Some UnknownLevel, w))"
proof (intro conjI impI)
  assume a: "(Level e, ty, i) \<in> set
        [(PanicLevel, EVENTLOG_ERROR_TYPE, 3), (FatalLevel, EVENTLOG_ERROR_TYPE, 4),
         (ErrorLevel, EVENTLOG_ERROR_TYPE, 1), (WarnLevel, EVENTLOG_WARNING_TYPE, 1),
         (InfoLevel, EVENTLOG_INFORMATION_TYPE, 1), (DebugLevel, EVENTLOG_INFORMATION_TYPE, 2)] \<and>
      log h = Some lh \<and> CHR 0x00 \<notin> set (Message e) \<and> CHR 0x00 \<notin> set (joinFields (Data e)) \<and>
      \<not> fault w (ReportEvent lh)"
  then have l: "levelEvent (Level e) = Some (ty, i)"
    by (auto simp: levelEvent_def PanicLevel_def FatalLevel_def ErrorLevel_def WarnLevel_def
        InfoLevel_def DebugLevel_def eventPanic_def eventFatal_def eventError_def eventWarn_def
        eventInfo_def eventDebug_def)
  from a have b: "log h = Some lh" "CHR 0x00 \<notin> set (Message e)"
      "CHR 0x00 \<notin> set (joinFields (Data e))" "\<not> fault w (ReportEvent lh)"
    by blast+
  show "Fire h e w = (None, w\<lparr>eventLog := eventLog w @
          [\<lparr>evHandle = lh, evType = ty,
            evId = (if Data e = [] then i else i + 10),
            evStrings = (if Data e = [] then [Message e] else [Message e, joinFields (Data e)])\<rparr>]\<rparr>)"
    using Fire_reports [OF l b] by (simp add: eventExtraOffset_def)
next
  show "distinct [eventPanic, eventFatal, eventError]"
    by (simp add: eventPanic_def eventFatal_def eventError_def)
  show "eventInfo \<noteq> eventDebug"
    by (simp add: eventInfo_def eventDebug_def)
  show "distinct [EVENTLOG_ERROR_TYPE, EVENTLOG_WARNING_TYPE, EVENTLOG_INFORMATION_TYPE]"
    by (simp add: EVENTLOG_ERROR_TYPE_def EVENTLOG_WARNING_TYPE_def EVENTLOG_INFORMATION_TYPE_def)
next
  assume "Level e \<notin> {PanicLevel, FatalLevel, ErrorLevel, WarnLevel, InfoLevel, DebugLevel}"
  then show "Fire h e w = (Some UnknownLevel, w)"
    by (simp add: levelEvent_def Fire_def)
qed

theorem Fire_levels_witness:
  "Fire \<lparr>log = Some 3\<rparr> \<lparr>Level = ErrorLevel, Message = ''no route'', Data = []\<rparr> serviceHost =
     (None, serviceHost\<lparr>eventLog :=
        [\<lparr>evHandle = 3, evType = EVENTLOG_ERROR_TYPE, evId = 1, evStrings = [''no route'']\<rparr>]\<rparr>) \<and>
   Fire \<lparr>log = Some 3\<rparr> \<lparr>Level = PanicLevel, Message = ''lost'', Data = []\<rparr> serviceHost =
     (None, serviceHost\<lparr>eventLog :=
        [\<lparr>evHandle = 3, evType = EVENTLOG_ERROR_TYPE, evId = 3, evStrings = [''lost'']\<rparr>]\<rparr>) \<and>
   Fire \<lparr>log = Some 3\<rparr> \<lparr>Level = DebugLevel, Message = ''tick'', Data = [(''k'', ''v'')]\<rparr>
       serviceHost =
     (None, serviceHost\<lparr>eventLog :=
        [\<lparr>evHandle = 3, evType = EVENTLOG_INFORMATION_TYPE, evId = 12,
          evStrings = [''tick'', ''k=v'']\<rparr>]\<rparr>) \<and>
   (6 :: Level) \<notin> {PanicLevel, FatalLevel, ErrorLevel, WarnLevel, InfoLevel, DebugLevel} \<and>
   Fire \<lparr>log = Some 3\<rparr> \<lparr>Level = 6, Message = ''trace'', Data = [(''k'', ''v'')]\<rparr> serviceHost =
     (Some UnknownLevel, serviceHost) \<and>
   Fire \<lparr>log = None\<rparr> \<lparr>Level = 6, Message = ''trace'', Data = []\<rparr> serviceHost =
     (Some UnknownLevel, serviceHost)"
proof -
  have s: "eventLog serviceHost = []" "fault serviceHost = (\<lambda>_. False)"
    by (simp_all add: serviceHost_eq freshHost_def)
  show ?thesis
    using Fire_levels [of "\<lparr>Level = ErrorLevel, Message = ''no route'', Data = []\<rparr>"
        EVENTLOG_ERROR_TYPE 1 "\<lparr>log = Some 3\<rparr>" 3 serviceHost]
      Fire_levels [of "\<lparr>Level = PanicLevel, Message = ''lost'', Data = []\<rparr>"
        EVENTLOG_ERROR_TYPE 3 "\<lparr>log = Some 3\<rparr>" 3 serviceHost]
      Fire_levels [of "\<lparr>Level = DebugLevel, Message = ''tick'', Data = [(''k'', ''v'')]\<rparr>"
        EVENTLOG_INFORMATION_TYPE 2 "\<lparr>log = Some 3\<rparr>" 3 serviceHost]
      Fire_levels [of "\<lparr>Level = 6, Message = ''trace'', Data = [(''k'', ''v'')]\<rparr>"
        EVENTLOG_ERROR_TYPE 1 "\<lparr>log = Some 3\<rparr>" 3 serviceHost]
      Fire_levels [of "\<lparr>Level = 6, Message = ''trace'', Data = []\<rparr>"
        EVENTLOG_ERROR_TYPE 1 "\<lparr>log = None\<rparr>" 3 serviceHost]
    by (simp add: s PanicLevel_def FatalLevel_def ErrorLevel_def WarnLevel_def InfoLevel_def
        DebugLevel_def)
qed

text \<open>
  C9. A record of a known level, reported through an open event log, with no NUL
  character in its strings and no failure of \<^verbatim>\<open>ReportEvent\<close>. When it carries fields,
  the identifier of the event is the identifier of the level plus 10 (without wrapping
  round), and the event holds two strings: the message, and the fields joined as
  \<^verbatim>\<open>k=v\<close> with single spaces between them and none at the end (\<open>joinFields\<close>, in the
  order in which the loop visits the map). When it carries no field, the event has the
  identifier of the level and holds the message only.
\<close>

theorem Fire_event:
  assumes "levelEvent (Level e) = Some (ty, base)" and "log h = Some lh"
    and "CHR 0x00 \<notin> set (Message e)" and "CHR 0x00 \<notin> set (joinFields (Data e))"
    and "\<not> fault w (ReportEvent lh)"
  shows "Fire h e w = (None, w\<lparr>eventLog := eventLog w @
            [\<lparr>evHandle = lh, evType = ty,
              evId = (if Data e = [] then base else base + eventExtraOffset),
              evStrings = (if Data e = [] then [Message e] else [Message e, joinFields (Data e)])\<rparr>]\<rparr>)
       \<and> unat (base + eventExtraOffset) = unat base + 10"
proof -
  have b: "base \<le> 4" using assms(1) by (rule levelEvent_base)
  have u: "unat (base + eventExtraOffset) = unat base + 10"
    using b unfolding eventExtraOffset_def by (simp add: unat_word_ariths word_le_nat_alt)
  show ?thesis
  proof (cases "Data e = []")
    case True
    then show ?thesis using assms u
      by (simp add: Fire_def UTF16PtrFromString_def windows_ReportEvent_def)
  next
    case False
    then show ?thesis using assms u
      by (simp add: Fire_def UTF16PtrFromString_def windows_ReportEvent_def butlast_writeFields
          joinFields_nonempty)
  qed
qed

theorem Fire_event_witness:
  "Fire \<lparr>log = Some 3\<rparr>
      \<lparr>Level = WarnLevel, Message = ''route changed'', Data = [(''host'', ''a''), (''n'', ''2'')]\<rparr>
      serviceHost =
     (None, serviceHost\<lparr>eventLog :=
        [\<lparr>evHandle = 3, evType = EVENTLOG_WARNING_TYPE, evId = 11,
          evStrings = [''route changed'', ''host=a n=2'']\<rparr>]\<rparr>) \<and>
   Fire \<lparr>log = Some 3\<rparr> \<lparr>Level = DebugLevel, Message = ''tick'', Data = []\<rparr> serviceHost =
     (None, serviceHost\<lparr>eventLog :=
        [\<lparr>evHandle = 3, evType = EVENTLOG_INFORMATION_TYPE, evId = 2, evStrings = [''tick'']\<rparr>]\<rparr>)"
  using Fire_event [of "\<lparr>Level = WarnLevel, Message = ''route changed'',
        Data = [(''host'', ''a''), (''n'', ''2'')]\<rparr>" EVENTLOG_WARNING_TYPE 1 "\<lparr>log = Some 3\<rparr>" 3
      serviceHost]
    Fire_event [of "\<lparr>Level = DebugLevel, Message = ''tick'', Data = []\<rparr>"
      EVENTLOG_INFORMATION_TYPE 2 "\<lparr>log = Some 3\<rparr>" 3 serviceHost]
  by (simp add: levelEvent_def PanicLevel_def FatalLevel_def ErrorLevel_def WarnLevel_def
      InfoLevel_def DebugLevel_def eventWarn_def eventDebug_def eventExtraOffset_def
      serviceHost_eq freshHost_def)

subsection \<open>The handler\<close>

lemma Execute_Loop_stop:
  assumes "\<forall>r \<in> set reqs. Cmd r \<noteq> Stop \<and> Cmd r \<noteq> Shutdown" and "Cmd c = Stop \<or> Cmd c = Shutdown"
  shows "Execute_Loop (map Request reqs @ Request c # rest) w =
     Some (True, w\<lparr>trace := trace w @ answers reqs @
        [SendStatus \<lparr>State = StopPending, Accepts = 0, CheckPoint = 0, WaitHint = 0\<rparr>,
         SendServiceSignal True], stopSignalled := True\<rparr>)"
  using assms
proof (induction reqs arbitrary: w)
  case Nil
  then show ?case
    by (auto simp: answers_def emit_alt Stop_def Shutdown_def Interrogate_def
        SERVICE_CONTROL_PARAMCHANGE_def)
next
  case (Cons r reqs)
  then show ?case
    by (simp add: answers_def emit_alt Interrogate_def SERVICE_CONTROL_PARAMCHANGE_def)
qed

text \<open>A run of \<^verbatim>\<open>Execute\<close> that a stop request ends.\<close>

lemma Execute_stop:
  assumes "\<forall>r \<in> set reqs. Cmd r \<noteq> Stop \<and> Cmd r \<noteq> Shutdown" and "Cmd c = Stop \<or> Cmd c = Shutdown"
  shows "Execute (Some False) (map Request reqs @ Request c # rest) w =
     Some (case exitAfter w of
        None \<Rightarrow> (Returns (True, 1), (removePanicFile w)\<lparr>trace := trace w @
           [SendStatus \<lparr>State = StartPending, Accepts = 0, CheckPoint = 0, WaitHint = 0\<rparr>,
            SendFromsvc None,
            SendStatus \<lparr>State = Running, Accepts = 13, CheckPoint = 0, WaitHint = 0\<rparr>,
            Log DebugLevel ''Service running'' None] @
           answers reqs @
           [SendStatus \<lparr>State = StopPending, Accepts = 0, CheckPoint = 0, WaitHint = 0\<rparr>,
            SendServiceSignal True], stopSignalled := True\<rparr>)
      | Some k \<Rightarrow> (Exits 0, (removePanicFile_prefix k w)\<lparr>trace := trace w @
           [SendStatus \<lparr>State = StartPending, Accepts = 0, CheckPoint = 0, WaitHint = 0\<rparr>,
            SendFromsvc None,
            SendStatus \<lparr>State = Running, Accepts = 13, CheckPoint = 0, WaitHint = 0\<rparr>,
            Log DebugLevel ''Service running'' None] @
           answers reqs @
           [SendStatus \<lparr>State = StopPending, Accepts = 0, CheckPoint = 0, WaitHint = 0\<rparr>,
            SendServiceSignal True,
            Log InfoLevel ''Receiving service stop signal. Stopping per-host-subnet'' None],
           stopSignalled := True\<rparr>))"
proof -
  have m: "AcceptStop OR AcceptShutdown OR SERVICE_ACCEPT_PARAMCHANGE = (13 :: 32 word)"
    by (simp add: AcceptStop_def AcceptShutdown_def SERVICE_ACCEPT_PARAMCHANGE_def)
  show ?thesis
    by (simp add: Execute_def emit_alt m Execute_Loop_stop [OF assms]
        removePanicFile_trace_update removePanicFile_stopSignalled_update
        removePanicFile_prefix_trace_update removePanicFile_prefix_stopSignalled_update
        trace_removePanicFile_prefix
        split: option.splits)
qed

text \<open>
  C7. When the value received on \<^verbatim>\<open>h.tosvc\<close> at line 334 is \<^verbatim>\<open>true\<close>,
  \<^verbatim>\<open>Execute\<close> returns \<^verbatim>\<open>(true, 1)\<close>, whatever requests are waiting. All it has done
  is: report \<^verbatim>\<open>StartPending\<close>, send nil on \<^verbatim>\<open>h.fromsvc\<close>, log one debug record.
  The only state it has reported is \<^verbatim>\<open>StartPending\<close>, never \<^verbatim>\<open>Running\<close>.
\<close>

theorem Execute_init_failure:
  "Execute (Some True) evs w =
     Some (Returns (True, 1), w\<lparr>trace := trace w @
       [SendStatus \<lparr>State = StartPending, Accepts = 0, CheckPoint = 0, WaitHint = 0\<rparr>,
        SendFromsvc None,
        Log DebugLevel ''Aborting service start due to failure during initialization'' None]\<rparr>) \<and>
   reported
       [SendStatus \<lparr>State = StartPending, Accepts = 0, CheckPoint = 0, WaitHint = 0\<rparr>,
        SendFromsvc None,
        Log DebugLevel ''Aborting service start due to failure during initialization'' None] =
     [StartPending]"
  by (simp add: Execute_def emit_alt)




text \<open>
  C2. The scenario of a stop asked by the system, on a host where the crash file is
  open and empty, the calls of \<^verbatim>\<open>removePanicFile\<close> do not fail and no other handle
  on the crash file is open: \<^verbatim>\<open>Execute\<close> reports \<^verbatim>\<open>StartPending\<close>, receives
  \<^verbatim>\<open>false\<close>, reports \<^verbatim>\<open>Running\<close> accepting \<^verbatim>\<open>Stop\<close>, \<^verbatim>\<open>Shutdown\<close> and
  \<^verbatim>\<open>PARAMCHANGE\<close> (the mask 13), receives \<^verbatim>\<open>Stop\<close>, reports \<^verbatim>\<open>StopPending\<close>,
  sends the stop signal, removes the crash file and restores standard error. If the
  exit of the goroutine that receives the signal does not come before, it then returns
  \<^verbatim>\<open>(true, 1)\<close>, since line 354 has set \<^verbatim>\<open>failed\<close>: it does not return
  \<^verbatim>\<open>(false, 0)\<close>.
\<close>

theorem Execute_clean_stop:
  assumes "Cmd c = Stop" and "exitAfter w = None"
    and "panicFile w = Some pf" and "File_Stat (panicFile w) w = Inr 0"
    and "\<not> fault w (SetStdHandle (oldStderr w))" and "\<not> fault w (FileClose (fd pf))"
    and "\<not> fault w (OsRemove (name pf))"
    and "\<not> isOpen (name pf) (w\<lparr>handles := (handles w)(fd pf := None)\<rparr>)"
  shows "\<exists>w'. Execute (Some False) (Request c # rest) w = Some (Returns (True, 1), w') \<and>
     trace w' = trace w @
       [SendStatus \<lparr>State = StartPending, Accepts = 0, CheckPoint = 0, WaitHint = 0\<rparr>,
        SendFromsvc None,
        SendStatus \<lparr>State = Running, Accepts = 13, CheckPoint = 0, WaitHint = 0\<rparr>,
        Log DebugLevel ''Service running'' None,
        SendStatus \<lparr>State = StopPending, Accepts = 0, CheckPoint = 0, WaitHint = 0\<rparr>,
        SendServiceSignal True] \<and>
     files w' (name pf) = None \<and> handles w' (fd pf) = None \<and> stdErrorHandle w' = oldStderr w"
proof -
  have r: "stdErrorHandle (removePanicFile w) = oldStderr w"
      "handles (removePanicFile w) (fd pf) = None"
      "files (removePanicFile w) (name pf) = None"
    using removePanicFile_empty(1) [OF assms(4) assms(3) assms(5)]
      removePanicFile_empty(3) [OF assms(4) assms(3) assms(6)]
      removePanicFile_empty(4) [OF assms(4) assms(3) assms(6) assms(7) assms(8)]
    by simp_all
  have c: "Cmd c = Stop \<or> Cmd c = Shutdown"
    using assms(1) by simp
  have n: "\<forall>r \<in> set ([] :: ChangeRequest list). Cmd r \<noteq> Stop \<and> Cmd r \<noteq> Shutdown"
    by simp
  show ?thesis
    using r assms(2) Execute_stop [OF n c, of rest w] by (simp add: answers_def)
qed

theorem Execute_clean_stop_witness:
  "exitAfter settledHost = None \<and>
   File_Stat (panicFile settledHost) settledHost = Inr 0 \<and>
   \<not> isOpen rancherPanicFile (settledHost\<lparr>handles := (handles settledHost)(7 := None)\<rparr>) \<and>
   (\<exists>w'. Execute (Some False)
       [Request \<lparr>Cmd = Stop,
          CurrentStatus = \<lparr>State = Running, Accepts = 13, CheckPoint = 0, WaitHint = 0\<rparr>\<rparr>]
       settledHost = Some (Returns (True, 1), w') \<and>
     reported (trace w') = [StartPending, Running, StopPending] \<and>
     files w' rancherPanicFile = None \<and> handles w' 7 = None \<and> stdErrorHandle w' = 2)"
proof -
  have c: "Cmd \<lparr>Cmd = Stop,
      CurrentStatus = \<lparr>State = Running, Accepts = 13, CheckPoint = 0, WaitHint = 0\<rparr>\<rparr> = Stop"
    by simp
  have s: "File_Stat (panicFile settledHost) settledHost = Inr 0"
    by (simp add: settledHost_fields)
  have n: "\<not> fault settledHost (SetStdHandle (oldStderr settledHost))"
      "\<not> fault settledHost (FileClose (fd \<lparr>name = rancherPanicFile, fd = 7\<rparr>))"
      "\<not> fault settledHost (OsRemove (name \<lparr>name = rancherPanicFile, fd = 7\<rparr>))"
      "\<not> isOpen (name \<lparr>name = rancherPanicFile, fd = 7\<rparr>)
        (settledHost\<lparr>handles := (handles settledHost)(fd \<lparr>name = rancherPanicFile, fd = 7\<rparr> := None)\<rparr>)"
    using isOpen_settledHost by (simp_all add: settledHost_fields)
  show ?thesis
    using Execute_clean_stop [OF c settledHost_fields(9) settledHost_fields(1) s n, of "[]"]
      isOpen_settledHost
    by (auto simp: settledHost_fields)
qed

theorem Execute_clean_stop_counterexample:
  "File_Stat (panicFile settledHost) settledHost = Inr 0 \<and>
   exitAfter settledHost = None \<and>
   map_option fst (Execute (Some False)
       [Request \<lparr>Cmd = Stop,
          CurrentStatus = \<lparr>State = Running, Accepts = 13, CheckPoint = 0, WaitHint = 0\<rparr>\<rparr>]
       settledHost) \<noteq> Some (Returns (False, 0)) \<and>
   map_option fst (Execute (Some False)
       [Request \<lparr>Cmd = Stop,
          CurrentStatus = \<lparr>State = Running, Accepts = 13, CheckPoint = 0, WaitHint = 0\<rparr>\<rparr>]
       settledHost) = Some (Returns (True, 1)) \<and>
   map_option (reported \<circ> trace \<circ> snd) (Execute (Some False)
       [Request \<lparr>Cmd = Stop,
          CurrentStatus = \<lparr>State = Running, Accepts = 13, CheckPoint = 0, WaitHint = 0\<rparr>\<rparr>]
       settledHost) = Some [StartPending, Running, StopPending] \<and>
   map_option (\<lambda>r. files (snd r) rancherPanicFile) (Execute (Some False)
       [Request \<lparr>Cmd = Stop,
          CurrentStatus = \<lparr>State = Running, Accepts = 13, CheckPoint = 0, WaitHint = 0\<rparr>\<rparr>]
       settledHost) = Some None \<and>
   map_option fst (Execute (Some False)
       [Request \<lparr>Cmd = Stop,
          CurrentStatus = \<lparr>State = Running, Accepts = 13, CheckPoint = 0, WaitHint = 0\<rparr>\<rparr>]
       racingHost) = Some (Exits 0) \<and>
   map_option (\<lambda>r. files (snd r) rancherPanicFile) (Execute (Some False)
       [Request \<lparr>Cmd = Stop,
          CurrentStatus = \<lparr>State = Running, Accepts = 13, CheckPoint = 0, WaitHint = 0\<rparr>\<rparr>]
       startedHost) = Some (Some '''')"
proof -
  have r: "exitAfter racingHost = Some 0"
    by (simp add: racingHost_def)
  have f: "files (removePanicFile settledHost) rancherPanicFile = None"
    using removePanicFile_empty(4) [of settledHost "\<lparr>name = rancherPanicFile, fd = 7\<rparr>"]
      isOpen_settledHost
    by (simp add: settledHost_fields)
  have g: "files (removePanicFile startedHost) rancherPanicFile = Some ''''"
    using removePanicFile_empty(5) [of startedHost "\<lparr>name = rancherPanicFile, fd = 7\<rparr>"]
      isOpen_startedHost
    by (simp add: startedHost_fields startedHost_Stat_pf)
  have e: "Execute (Some False)
       [Request \<lparr>Cmd = Stop,
          CurrentStatus = \<lparr>State = Running, Accepts = 13, CheckPoint = 0, WaitHint = 0\<rparr>\<rparr>] w =
     Some (case exitAfter w of
        None \<Rightarrow> (Returns (True, 1), (removePanicFile w)\<lparr>trace := trace w @
           [SendStatus \<lparr>State = StartPending, Accepts = 0, CheckPoint = 0, WaitHint = 0\<rparr>,
            SendFromsvc None,
            SendStatus \<lparr>State = Running, Accepts = 13, CheckPoint = 0, WaitHint = 0\<rparr>,
            Log DebugLevel ''Service running'' None,
            SendStatus \<lparr>State = StopPending, Accepts = 0, CheckPoint = 0, WaitHint = 0\<rparr>,
            SendServiceSignal True], stopSignalled := True\<rparr>)
      | Some k \<Rightarrow> (Exits 0, (removePanicFile_prefix k w)\<lparr>trace := trace w @
           [SendStatus \<lparr>State = StartPending, Accepts = 0, CheckPoint = 0, WaitHint = 0\<rparr>,
            SendFromsvc None,
            SendStatus \<lparr>State = Running, Accepts = 13, CheckPoint = 0, WaitHint = 0\<rparr>,
            Log DebugLevel ''Service running'' None,
            SendStatus \<lparr>State = StopPending, Accepts = 0, CheckPoint = 0, WaitHint = 0\<rparr>,
            SendServiceSignal True,
            Log InfoLevel ''Receiving service stop signal. Stopping per-host-subnet'' None],
           stopSignalled := True\<rparr>))" for w
    using Execute_stop [of "[]"
        "\<lparr>Cmd = Stop,
            CurrentStatus = \<lparr>State = Running, Accepts = 13, CheckPoint = 0, WaitHint = 0\<rparr>\<rparr>"
        "[]" w]
    by (simp add: answers_def split: option.splits)
  show ?thesis
    by (simp add: e r f g settledHost_fields startedHost_fields)
qed

subsection \<open>The entry points\<close>

text \<open>The console session, evaluated.\<close>

lemma initService_interactiveHost:
  "initService False False interactiveHost = (Returns None, consoleHost)"
  "consoleHost =
     interactiveHost\<lparr>files := (files interactiveHost)(logFile \<mapsto> ''''),
       dirs := (dirs interactiveHost)(homeDir := True),
       handles := (handles interactiveHost)(3 \<mapsto> logFile, 4 \<mapsto> logFile),
       nextHandle := 5, hooks := [\<lparr>log = None\<rparr>],
       logOutput := Some \<lparr>name = logFile, fd = 4\<rparr>, service := Some Handler,
       trace := [RecvFromsvc]\<rparr>"
  by (simp_all add: consoleHost_def initService_def interactiveHost_def freshHost_def os_Stat_def
      os_MkdirAll_def svc_IsAnInteractiveSession_def os_Create_def os_OpenFile_def
      firstFromsvc_def emit_def Let_def logFile_def homeDir_def fun_upd_twist)

lemma consoleHost_fields:
  "service consoleHost = Some Handler" "hooks consoleHost = [\<lparr>log = None\<rparr>]"
  "console consoleHost = ''''" "eventLog consoleHost = []" "stdErrorHandle consoleHost = 2"
  "files consoleHost rancherPanicFile = None" "trace consoleHost = [RecvFromsvc]"
  "isInteractive consoleHost"
  by (simp_all add: initService_interactiveHost(2) interactiveHost_def freshHost_def
      logFile_def rancherPanicFile_def)

text \<open>\<^verbatim>\<open>notifySystem\<close> and \<^verbatim>\<open>NotifyShutdown\<close> do nothing exactly when \<^verbatim>\<open>service\<close> is
  not set, and never look at the kind of session.\<close>

lemma notifySystem_noop: "notifySystem w = (Returns (), w) \<longleftrightarrow> service w = None"
proof
  assume a: "notifySystem w = (Returns (), w)"
  show "service w = None"
  proof (rule ccontr)
    assume s: "service w \<noteq> None"
    obtain r v where i: "initPanicFile rancherPanicFile w = (r, v)"
      by (cases "initPanicFile rancherPanicFile w")
    have t: "trace v = trace w"
      using initPanicFile_trace [of rancherPanicFile w] i by simp
    show False
    proof (cases r)
      case None
      then have "notifySystem w = (Returns (), v\<lparr>trace := trace w @ [SendTosvc False]\<rparr>)"
        using s i t by (simp add: notifySystem_def started_def emit_alt)
      then have "trace (snd (notifySystem w)) = trace w @ [SendTosvc False]"
        by simp
      moreover have "trace (snd (notifySystem w)) = trace w"
        using a by simp
      ultimately show False
        by simp
    next
      case (Some err)
      then show False
        using a s i by (simp add: notifySystem_def started_def)
    qed
  qed
next
  assume "service w = None"
  then show "notifySystem w = (Returns (), w)"
    by (simp add: notifySystem_def)
qed

lemma NotifyShutdown_noop: "NotifyShutdown err w = (Returns (), w) \<longleftrightarrow> service w = None"
proof
  assume a: "NotifyShutdown err w = (Returns (), w)"
  show "service w = None"
  proof (rule ccontr)
    assume s: "service w \<noteq> None"
    show False
    proof (cases err)
      case None
      then have "trace (snd (NotifyShutdown err w)) =
          trace w @ [Log DebugLevel ''Stopping service: %v'' None, SendTosvc False, RecvFromsvc]"
        using s by (simp add: NotifyShutdown_def stopped_def emit_alt)
      moreover have "trace (snd (NotifyShutdown err w)) = trace w"
        using a by simp
      ultimately show False
        by simp
    next
      case (Some e)
      then show False
        using a s by (simp add: NotifyShutdown_def)
    qed
  qed
next
  assume "service w = None"
  then show "NotifyShutdown err w = (Returns (), w)"
    by (simp add: NotifyShutdown_def)
qed


text \<open>
  C4. Under the service manager (\<^verbatim>\<open>service\<close> is set), \<^verbatim>\<open>NotifyShutdown\<close> with an
  error hands it to \<^verbatim>\<open>logrus.Fatal\<close> (line 436), which logs it and leaves the process
  with status 1: \<^verbatim>\<open>stopped\<close> is not reached, nothing is sent on \<^verbatim>\<open>h.tosvc\<close>, and
  the world is as before but for the record logged. Only without an error does
  \<^verbatim>\<open>NotifyShutdown\<close> run \<^verbatim>\<open>stopped\<close>: a debug record, \<^verbatim>\<open>false\<close> sent on
  \<^verbatim>\<open>h.tosvc\<close>, and a receive from \<^verbatim>\<open>h.fromsvc\<close>.
\<close>

theorem NotifyShutdown_spec:
  "service w \<noteq> None \<Longrightarrow>
     NotifyShutdown (Some err) w =
       (Exits 1, w\<lparr>trace := trace w @ [Log FatalLevel '''' (Some err)]\<rparr>) \<and>
     NotifyShutdown None w =
       (Returns (), w\<lparr>trace := trace w @
          [Log DebugLevel ''Stopping service: %v'' None, SendTosvc False, RecvFromsvc]\<rparr>)"
  by (simp add: NotifyShutdown_def stopped_def emit_alt)

theorem NotifyShutdown_spec_witness:
  "service startedHost \<noteq> None \<and>
   NotifyShutdown (Some EINVAL) startedHost =
     (Exits 1, startedHost\<lparr>trace :=
        [RecvFromsvc, SendTosvc False, Log FatalLevel '''' (Some EINVAL)]\<rparr>) \<and>
   NotifyShutdown None startedHost =
     (Returns (), startedHost\<lparr>trace :=
        [RecvFromsvc, SendTosvc False, Log DebugLevel ''Stopping service: %v'' None,
         SendTosvc False, RecvFromsvc]\<rparr>)"
  using NotifyShutdown_spec [of startedHost EINVAL]
  by (simp add: startedHost_fields)

theorem NotifyShutdown_error_counterexample:
  "service startedHost \<noteq> None \<and>
   fst (NotifyShutdown (Some EINVAL) startedHost) = Exits 1 \<and>
   SendTosvc True \<notin> set (trace (snd (NotifyShutdown (Some EINVAL) startedHost))) \<and>
   trace (snd (NotifyShutdown (Some EINVAL) startedHost)) \<noteq>
     trace (stopped (Some EINVAL) startedHost) \<and>
   files (snd (NotifyShutdown (Some EINVAL) startedHost)) rancherPanicFile = Some '''' \<and>
   stdErrorHandle (snd (NotifyShutdown (Some EINVAL) startedHost)) = 7"
  by (simp add: NotifyShutdown_def stopped_def emit_alt startedHost_fields)

text \<open>
  C5. In an interactive session \<^verbatim>\<open>initService\<close>, when it succeeds, has set
  \<^verbatim>\<open>service\<close> all the same (line 293 is outside the test of \<^verbatim>\<open>interactive\<close>).
  \<^verbatim>\<open>notifySystem\<close> and \<^verbatim>\<open>NotifyShutdown\<close> do nothing exactly when \<^verbatim>\<open>service\<close> is
  not set; so after a successful \<^verbatim>\<open>initService\<close> in an interactive session they do
  something. What differs in an interactive session is the hook, added with no event
  log, and \<^verbatim>\<open>Fire\<close> on such a hook prints the record of a known level to the console
  and reports no event.
\<close>

theorem interactive_mode:
  "(isInteractive w \<and> initService False False w = (Returns None, w1) \<longrightarrow>
      service w1 = Some Handler \<and> hooks w1 = hooks w @ [\<lparr>log = None\<rparr>] \<and>
      notifySystem w1 \<noteq> (Returns (), w1) \<and> NotifyShutdown err w1 \<noteq> (Returns (), w1)) \<and>
   (notifySystem w = (Returns (), w) \<longleftrightarrow> service w = None) \<and>
   (NotifyShutdown err w = (Returns (), w) \<longleftrightarrow> service w = None) \<and>
   (levelEvent (Level e) \<noteq> None \<longrightarrow>
      fst (Fire \<lparr>log = None\<rparr> e w2) = None \<and>
      eventLog (snd (Fire \<lparr>log = None\<rparr> e w2)) = eventLog w2 \<and>
      console (snd (Fire \<lparr>log = None\<rparr> e w2)) =
        console w2 @ Message e @ '' ['' @
          (if Data e = [] then '''' else joinFields (Data e)) @ '']'' @ [CHR 0x0A])"
proof (intro conjI impI)
  assume a: "isInteractive w \<and> initService False False w = (Returns None, w1)"
  then have i: "isInteractive w" and s: "initService False False w = (Returns None, w1)"
    by simp_all
  show v: "service w1 = Some Handler"
    using i s
    by (auto simp: initService_def os_Stat_def os_MkdirAll_def svc_IsAnInteractiveSession_def
        os_Create_def os_OpenFile_def emit_def Let_def
        split: if_splits option.splits sum.splits prod.splits)
  show "hooks w1 = hooks w @ [\<lparr>log = None\<rparr>]"
    using i s
    by (auto simp: initService_def os_Stat_def os_MkdirAll_def svc_IsAnInteractiveSession_def
        os_Create_def os_OpenFile_def emit_def Let_def
        split: if_splits option.splits sum.splits prod.splits)
  show "notifySystem w1 \<noteq> (Returns (), w1)"
    using v by (simp add: notifySystem_noop)
  show "NotifyShutdown err w1 \<noteq> (Returns (), w1)"
    using v by (simp add: NotifyShutdown_noop)
next
  show "notifySystem w = (Returns (), w) \<longleftrightarrow> service w = None"
    by (rule notifySystem_noop)
  show "NotifyShutdown err w = (Returns (), w) \<longleftrightarrow> service w = None"
    by (rule NotifyShutdown_noop)
next
  assume "levelEvent (Level e) \<noteq> None"
  then obtain ty base where l: "levelEvent (Level e) = Some (ty, base)"
    by auto
  show "fst (Fire \<lparr>log = None\<rparr> e w2) = None"
    using l by (simp add: Fire_def Let_def)
  show "eventLog (snd (Fire \<lparr>log = None\<rparr> e w2)) = eventLog w2"
    using l by (simp add: Fire_def Let_def)
  show "console (snd (Fire \<lparr>log = None\<rparr> e w2)) =
      console w2 @ Message e @ '' ['' @
        (if Data e = [] then '''' else joinFields (Data e)) @ '']'' @ [CHR 0x0A]"
    using l by (simp add: Fire_def Let_def butlast_writeFields)
qed

theorem interactive_mode_witness:
  "isInteractive interactiveHost \<and>
   initService False False interactiveHost = (Returns None, consoleHost) \<and>
   service consoleHost = Some Handler \<and> hooks consoleHost = [\<lparr>log = None\<rparr>] \<and>
   notifySystem consoleHost \<noteq> (Returns (), consoleHost) \<and>
   NotifyShutdown None consoleHost \<noteq> (Returns (), consoleHost) \<and>
   levelEvent (Level \<lparr>Level = InfoLevel, Message = ''up'', Data = [(''k'', ''v'')]\<rparr>) \<noteq> None \<and>
   fst (Fire \<lparr>log = None\<rparr> \<lparr>Level = InfoLevel, Message = ''up'', Data = [(''k'', ''v'')]\<rparr>
     consoleHost) = None \<and>
   eventLog (snd (Fire \<lparr>log = None\<rparr> \<lparr>Level = InfoLevel, Message = ''up'', Data = [(''k'', ''v'')]\<rparr>
     consoleHost)) = [] \<and>
   console (snd (Fire \<lparr>log = None\<rparr> \<lparr>Level = InfoLevel, Message = ''up'', Data = [(''k'', ''v'')]\<rparr>
     consoleHost)) = ''up [k=v]'' @ [CHR 0x0A] \<and>
   service freshHost = None \<and>
   notifySystem freshHost = (Returns (), freshHost) \<and>
   NotifyShutdown (Some EINVAL) freshHost = (Returns (), freshHost)"
  using interactive_mode [of interactiveHost consoleHost None
      "\<lparr>Level = InfoLevel, Message = ''up'', Data = [(''k'', ''v'')]\<rparr>" consoleHost]
    interactive_mode [of freshHost consoleHost "Some EINVAL"
      "\<lparr>Level = InfoLevel, Message = ''up'', Data = [(''k'', ''v'')]\<rparr>" consoleHost]
  by (simp add: initService_interactiveHost(1) consoleHost_fields levelEvent_def InfoLevel_def
      PanicLevel_def FatalLevel_def ErrorLevel_def WarnLevel_def)
     (simp add: interactiveHost_def freshHost_def)

theorem interactive_mode_counterexample:
  "isInteractive interactiveHost \<and>
   initService False False interactiveHost = (Returns None, consoleHost) \<and>
   isInteractive consoleHost \<and>
   service consoleHost \<noteq> None \<and>
   files consoleHost rancherPanicFile = None \<and> stdErrorHandle consoleHost = 2 \<and>
   fst (notifySystem consoleHost) = Returns () \<and>
   files (snd (notifySystem consoleHost)) rancherPanicFile = Some '''' \<and>
   stdErrorHandle (snd (notifySystem consoleHost)) = 6 \<and>
   trace (snd (notifySystem consoleHost)) = [RecvFromsvc, SendTosvc False] \<and>
   trace (snd (NotifyShutdown None consoleHost)) =
     [RecvFromsvc, Log DebugLevel ''Stopping service: %v'' None, SendTosvc False, RecvFromsvc]"
proof -
  have n: "snd (notifySystem consoleHost) =
      consoleHost\<lparr>files := (files consoleHost)(rancherPanicFile \<mapsto> ''''),
        handles := (handles consoleHost)(5 \<mapsto> rancherPanicFile, 6 \<mapsto> rancherPanicFile),
        nextHandle := 7, stdErrorHandle := 6, oldStderr := 2,
        panicFile := Some \<lparr>name = rancherPanicFile, fd = 6\<rparr>,
        trace := [RecvFromsvc, SendTosvc False]\<rparr>"
      "fst (notifySystem consoleHost) = Returns ()"
    by (simp_all add: notifySystem_def started_def initPanicFile_def
        initService_interactiveHost(2) interactiveHost_def freshHost_def os_Create_def
        os_OpenFile_def File_Stat_def syscall_GetStdHandle_def setStdHandle_Call_def emit_def
        Let_def)
  have i: "isInteractive interactiveHost"
    by (simp add: interactiveHost_def freshHost_def)
  show ?thesis
    by (simp add: n i initService_interactiveHost(1) consoleHost_fields NotifyShutdown_def
        stopped_def emit_alt)
qed

end
